theory Spec2Isabelle
  imports Main "HOL-Library.Word"
begin

section \<open>Database access server: data model\<close>

text \<open>
  The development follows the database service of Teleport (package \<open>db\<close>): the server
  configuration and its validation, the per-connection admission path
  (\<open>HandleConnection\<close>, \<open>handleConnection\<close>, \<open>authorize\<close>, \<open>dispatch\<close>), the heartbeat
  info-provider and the lifecycle operations \<open>Start\<close> and \<open>Close\<close>.

  Collaborators that live outside the modelled file (the TLS layer, the authorization
  oracle, the stream writer, the protocol engine, the heartbeat and label workers) are
  represented by the values they return; every call to one of them is recorded as an
  event, so that the order of calls can be stated.
\<close>

subsection \<open>Errors and results\<close>

text \<open>
  Errors of the \<open>trace\<close> package. \<open>BadParameter\<close> and \<open>NotFound\<close> keep the format string and
  its arguments apart, as the call site writes them. \<open>Wrap\<close> is \<open>trace.Wrap\<close>, which keeps the
  class of the error it wraps. \<open>External\<close> is an error of a collaborator.
\<close>

datatype error =
    BadParameter string "string list"
  | NotFound string
  | AccessDenied string
  | External string
  | Wrap error
  | Aggregate "error list"

fun IsNotFound :: "error \<Rightarrow> bool" where
  "IsNotFound (NotFound m) = True"
| "IsNotFound (Wrap e) = IsNotFound e"
| "IsNotFound e = False"

fun IsBadParameter :: "error \<Rightarrow> bool" where
  "IsBadParameter (BadParameter f as) = True"
| "IsBadParameter (Wrap e) = IsBadParameter e"
| "IsBadParameter e = False"

text \<open>
  A Go function returning \<open>(value, error)\<close> either returns a value with a nil error, or an
  error; a method call on a nil interface or a dereference of a nil pointer is a run-time
  panic, which is neither.
\<close>

datatype 'a outcome = Return 'a | Fail error | Panic

text \<open>
  \<open>trace.NewAggregate\<close>: nil errors are dropped; no error left is nil, otherwise all of them
  are kept in one aggregate.
\<close>

definition NewAggregate :: "error option list \<Rightarrow> error option" where
  "NewAggregate errs =
     (let nonNils = List.map_filter id errs
      in if nonNils = [] then None else Some (Aggregate nonNils))"

subsection \<open>Configuration\<close>

type_synonym time = int

datatype clock = RealClock | FakeClock time

datatype handle = Handle string

datatype role = RoleDatabase | RoleProxy

datatype rotation = Rotation string

text \<open>
  A database descriptor (\<open>services.DatabaseServer\<close>), with the fields its getters and
  setters read and write.
\<close>

record DatabaseServer =
  Name :: string
  DatabaseName :: string
  Protocol :: string
  URI :: string
  DynamicLabels :: "(string \<times> string) list"
  RotationState :: rotation
  Expires :: "time option"

text \<open>
  Contexts. \<open>WithCancel\<close> is \<open>context.WithCancel\<close>; \<open>WithUser\<close> is a context carrying a
  value under the key \<open>auth.ContextUser\<close>, as the identity middleware builds it. The value is
  one of the principal types of package \<open>auth\<close>, or absent.
\<close>

datatype user_value = NilValue | LocalUser | RemoteUser | BuiltinRole | RemoteBuiltinRole

datatype "context" = Background | WithCancel "context" | WithUser user_value "context"

fun ctx_Value :: "context \<Rightarrow> user_value" where
  "ctx_Value Background = NilValue"
| "ctx_Value (WithCancel parent) = ctx_Value parent"
| "ctx_Value (WithUser u parent) = u"

text \<open>The type name that the verb \<open>%T\<close> prints.\<close>

fun type_name :: "user_value \<Rightarrow> string" where
  "type_name NilValue = ''<nil>''"
| "type_name LocalUser = ''auth.LocalUser''"
| "type_name RemoteUser = ''auth.RemoteUser''"
| "type_name BuiltinRole = ''auth.BuiltinRole''"
| "type_name RemoteBuiltinRole = ''auth.RemoteBuiltinRole''"

text \<open>
  The identity of a client certificate (\<open>tlsca.Identity\<close>): \<open>ServiceName\<close> is
  \<open>RouteToDatabase.ServiceName\<close>. \<open>AuthContext\<close> is what the authorizer returns.
\<close>

record Identity =
  Username :: string
  ServiceName :: string

record AuthContext =
  authIdentity :: Identity
  authChecker :: handle

text \<open>
  The part of \<open>tls.Config\<close> that the server sets: the client-authentication policy, and
  whether a per-client configuration callback is installed.
\<close>

datatype ClientAuthType =
    NoClientCert
  | RequestClientCert
  | RequireAnyClientCert
  | VerifyClientCertIfGiven
  | RequireAndVerifyClientCert

record tls_Config =
  ClientAuth :: ClientAuthType
  GetConfigForClient :: bool

record Config =
  Clock :: "clock option"
  DataDir :: string
  AuthClient :: "handle option"
  AccessPoint :: "handle option"
  StreamEmitter :: "handle option"
  TLSConfig :: "tls_Config option"
  CipherSuites :: "16 word list"
  Authorizer :: "(context \<Rightarrow> error + AuthContext) option"
  GetRotation :: "(role \<Rightarrow> rotation option \<times> error option) option"
  Servers :: "DatabaseServer list"
  Credentials :: "handle option"
  OnHeartbeat :: "handle option"

text \<open>
  \<open>Config.CheckAndSetDefaults\<close>. The receiver is a pointer, so the configuration is
  returned together with the error. \<open>awsSession\<close> is what
  \<open>awssession.NewSessionWithOptions\<close> returns: an error, or the credentials of the session.
\<close>

definition CheckAndSetDefaults ::
  "error + handle \<Rightarrow> 'a Config_scheme \<Rightarrow> 'a Config_scheme \<times> error option" where
  "CheckAndSetDefaults awsSession c0 =
     (let c = (if Clock c0 = None then c0\<lparr>Clock := Some RealClock\<rparr> else c0)
      in if DataDir c = [] then (c, Some (BadParameter ''data dir missing'' []))
      else if AuthClient c = None then (c, Some (BadParameter ''auth client log missing'' []))
      else if AccessPoint c = None then (c, Some (BadParameter ''access point missing'' []))
      else if StreamEmitter c = None then (c, Some (BadParameter ''stream emitter missing'' []))
      else if TLSConfig c = None then (c, Some (BadParameter ''tls config missing'' []))
      else if length (CipherSuites c) = 0 then (c, Some (BadParameter ''cipersuites missing'' []))
      else if Authorizer c = None then (c, Some (BadParameter ''authorizer missing'' []))
      else if GetRotation c = None then (c, Some (BadParameter ''rotation getter missing'' []))
      else if length (Servers c) = 0 then (c, Some (BadParameter ''database servers missing'' []))
      else if OnHeartbeat c = None then (c, Some (BadParameter ''heartbeat missing'' []))
      else if Credentials c = None then
        (case awsSession of
           Inl err \<Rightarrow> (c, Some (Wrap err))
         | Inr creds \<Rightarrow> (c\<lparr>Credentials := Some creds\<rparr>, None))
      else (c, None))"

subsection \<open>Server, sessions and events\<close>

text \<open>
  The workers of a descriptor, by what the server asks of them: a label worker
  (\<open>labels.Dynamic\<close>) by the label map its \<open>Get\<close> returns, a heartbeat (\<open>srv.Heartbeat\<close>) by
  the error its \<open>Close\<close> returns.
\<close>

record Dynamic =
  labelsGet :: "(string \<times> string) list"

record Heartbeat =
  closeErr :: "error option"

text \<open>
  The server embeds its configuration. The two worker tables are Go maps keyed by descriptor
  name; each is kept as an association list whose order is the order in which a \<open>range\<close>
  loop visits the entries, which Go leaves open. A lookup by key is \<open>map_of\<close>.
\<close>

record Server = Config +
  closeContext :: "context"
  dynamicLabels :: "(string \<times> Dynamic) list"
  heartbeats :: "(string \<times> Heartbeat) list"
  rdsCACerts :: "(string \<times> string) list"

record SessionContext =
  ID :: string
  Server :: "DatabaseServer option"
  Identity :: Identity
  Checker :: handle
  Log :: "(string \<times> string) list"

text \<open>
  The calls that leave the modelled file, in the order in which they are made. A \<open>Go\<close>
  event is a goroutine launched with the call it will make.
\<close>

datatype event =
    LogDebug string
  | LogWarn string
  | LogError string
  | TLSHandshake "tls_Config option"
  | MiddlewareWrapContext
  | AuthorizerAuthorize
  | SessionBuilt string
  | NewStreamWriter
  | GoStreamWriterClose handle "context"
  | EngineHandleConnection "context"
  | ConnClose
  | GoDynamicStart string
  | GoHeartbeatRun string
  | DynamicClose string
  | CloseFunc
  | HeartbeatClose string

subsection \<open>Construction\<close>

text \<open>An assignment \<open>m[k] = v\<close> to a Go map kept as an association list.\<close>

fun map_set :: "'k \<Rightarrow> 'v \<Rightarrow> ('k \<times> 'v) list \<Rightarrow> ('k \<times> 'v) list" where
  "map_set k v [] = [(k, v)]"
| "map_set k v ((k', v') # rest) =
     (if k' = k then (k, v) # rest else (k', v') # map_set k v rest)"

text \<open>
  What the collaborators of construction return for a descriptor: \<open>labels.NewDynamic\<close>,
  \<open>srv.NewHeartbeat\<close>, and \<open>initRDSRootCert\<close>, which is given the root-certificate cache and
  returns it updated.
\<close>

record init_env =
  newDynamic :: "DatabaseServer \<Rightarrow> error + Dynamic"
  newHeartbeat :: "DatabaseServer \<Rightarrow> error + Heartbeat"
  initRDSRootCert :: "(string \<times> string) list \<Rightarrow> DatabaseServer \<Rightarrow> error + (string \<times> string) list"

definition initDynamicLabels :: "init_env \<Rightarrow> Server \<Rightarrow> DatabaseServer \<Rightarrow> error + Server" where
  "initDynamicLabels env s server =
     (if length (DynamicLabels server) = 0 then Inr s
      else case newDynamic env server of
             Inl err \<Rightarrow> Inl (Wrap err)
           | Inr dynamic \<Rightarrow>
               Inr (s\<lparr>dynamicLabels := map_set (Name server) dynamic (dynamicLabels s)\<rparr>))"

definition initHeartbeat :: "init_env \<Rightarrow> Server \<Rightarrow> DatabaseServer \<Rightarrow> error + Server" where
  "initHeartbeat env s server =
     (case newHeartbeat env server of
        Inl err \<Rightarrow> Inl (Wrap err)
      | Inr heartbeat \<Rightarrow>
          Inr (s\<lparr>heartbeats := map_set (Name server) heartbeat (heartbeats s)\<rparr>))"

definition initDatabaseServer :: "init_env \<Rightarrow> Server \<Rightarrow> DatabaseServer \<Rightarrow> error + Server" where
  "initDatabaseServer env s server =
     (case initDynamicLabels env s server of
        Inl err \<Rightarrow> Inl (Wrap err)
      | Inr s1 \<Rightarrow>
         (case initHeartbeat env s1 server of
            Inl err \<Rightarrow> Inl (Wrap err)
          | Inr s2 \<Rightarrow>
             (case initRDSRootCert env (rdsCACerts s2) server of
                Inl err \<Rightarrow> Inl (Wrap err)
              | Inr certs \<Rightarrow> Inr (s2\<lparr>rdsCACerts := certs\<rparr>))))"

fun init_all :: "init_env \<Rightarrow> Server \<Rightarrow> DatabaseServer list \<Rightarrow> error + Server" where
  "init_all env s [] = Inr s"
| "init_all env s (db # rest) =
     (case initDatabaseServer env s db of
        Inl err \<Rightarrow> Inl (Wrap err)
      | Inr s' \<Rightarrow> init_all env s' rest)"

text \<open>
  \<open>New\<close>: the configuration is validated first; the server gets a cancellable child of
  \<open>ctx\<close> and empty tables; its TLS configuration is set to require and verify a client
  certificate; then every descriptor is initialised, in order.
\<close>

definition New :: "context \<Rightarrow> error + handle \<Rightarrow> init_env \<Rightarrow> Config \<Rightarrow> Server outcome" where
  "New ctx awsSession env config0 =
     (case CheckAndSetDefaults awsSession config0 of
        (config, Some err) \<Rightarrow> Fail (Wrap err)
      | (config, None) \<Rightarrow>
         (case TLSConfig config of
            None \<Rightarrow> Panic
          | Some tlsConfig \<Rightarrow>
             (let server = Config.extend config
                             (Server.fields (WithCancel ctx) [] [] []);
                  server = server\<lparr>TLSConfig :=
                             Some (tlsConfig\<lparr>ClientAuth := RequireAndVerifyClientCert,
                                              GetConfigForClient := True\<rparr>)\<rparr>
              in case init_all env server (Servers server) of
                   Inl err \<Rightarrow> Fail err
                 | Inr server' \<Rightarrow> Return server')))"

subsection \<open>Authorization\<close>

text \<open>
  The loop of \<open>authorize\<close> over the configured descriptors: \<open>server\<close> starts as the nil
  interface and is overwritten at every descriptor whose database name is the requested
  service name.
\<close>

fun fetch_server ::
  "DatabaseServer list \<Rightarrow> string \<Rightarrow> DatabaseServer option \<Rightarrow> DatabaseServer option" where
  "fetch_server [] serviceName server = server"
| "fetch_server (s # rest) serviceName server =
     fetch_server rest serviceName (if DatabaseName s = serviceName then Some s else server)"

text \<open>
  \<open>Server.authorize\<close>. \<open>uid\<close> is the identifier that \<open>uuid.New\<close> returns. The second debug
  message calls \<open>GetDatabaseName\<close> and \<open>GetURI\<close> on \<open>server\<close> to build its arguments, which
  panics when \<open>server\<close> is still the nil interface.
\<close>

definition authorize ::
  "'a Server_scheme \<Rightarrow> string \<Rightarrow> context \<Rightarrow> event list \<times> SessionContext outcome" where
  "authorize s uid ctx =
     (let userType = ctx_Value ctx
      in if userType \<noteq> LocalUser \<and> userType \<noteq> RemoteUser
         then ([], Fail (BadParameter ''invalid identity: %T'' [type_name userType]))
         else
          (case Authorizer s of
             None \<Rightarrow> ([], Panic)
           | Some authorizer \<Rightarrow>
              (case authorizer ctx of
                 Inl err \<Rightarrow> ([AuthorizerAuthorize], Fail (Wrap err))
               | Inr authContext \<Rightarrow>
                  (let identity = authIdentity authContext;
                       ev = [AuthorizerAuthorize, LogDebug ''Client identity: %#v.''];
                       server = fetch_server (Servers s) (ServiceName identity) None
                   in case server of
                        None \<Rightarrow> (ev, Panic)
                      | Some d \<Rightarrow>
                         (ev @ [LogDebug ''Will connect to database %q at %v.'', SessionBuilt uid],
                          Return \<lparr>ID = uid, Server = server, Identity = identity,
                                  Checker = authChecker authContext,
                                  Log = [(''id'', uid), (''db'', DatabaseName d)]\<rparr>)))))"

subsection \<open>Dispatch\<close>

text \<open>
  Modelled from the spec: the constant \<open>defaults.ProtocolPostgres\<close> is declared in a package
  that is not among the source files; the spec names the one registered protocol postgres.
\<close>

definition ProtocolPostgres :: string where
  "ProtocolPostgres = ''postgres''"

text \<open>
  The three audit closures that \<open>dispatch\<close> hands to the engine, each bound to the stream
  writer it was built from.
\<close>

datatype closure =
    emitSessionStartEventFn handle
  | emitSessionEndEventFn handle
  | emitQueryEventFn handle

text \<open>The fields of \<open>postgres.Engine\<close>, prefixed with \<open>Engine\<close>.\<close>

record Engine =
  EngineAuthClient :: "handle option"
  EngineCredentials :: "handle option"
  EngineRDSCACerts :: "(string \<times> string) list"
  EngineOnSessionStart :: closure
  EngineOnSessionEnd :: closure
  EngineOnQuery :: closure
  EngineClock :: "clock option"
  EngineLog :: "(string \<times> string) list"

definition dispatch :: "'a Server_scheme \<Rightarrow> SessionContext \<Rightarrow> handle \<Rightarrow> Engine outcome" where
  "dispatch s sessionCtx streamWriter =
     (case Server sessionCtx of
        None \<Rightarrow> Panic
      | Some d \<Rightarrow>
         if Protocol d = ProtocolPostgres
         then Return \<lparr>EngineAuthClient = AuthClient s,
                      EngineCredentials = Credentials s,
                      EngineRDSCACerts = rdsCACerts s,
                      EngineOnSessionStart = emitSessionStartEventFn streamWriter,
                      EngineOnSessionEnd = emitSessionEndEventFn streamWriter,
                      EngineOnQuery = emitQueryEventFn streamWriter,
                      EngineClock = Clock s,
                      EngineLog = Log sessionCtx\<rparr>
         else Fail (BadParameter ''unsupported database procotol %q'' [Protocol d]))"

subsection \<open>Connection handling\<close>

text \<open>
  What the collaborators of one connection return: the TLS handshake, the identity
  middleware, \<open>uuid.New\<close>, the stream-writer constructor and the engine's own
  \<open>HandleConnection\<close>.
\<close>

record conn_env =
  handshake :: "error option"
  wrapContext :: "error + context"
  newID :: string
  newStreamWriter :: "SessionContext \<Rightarrow> error + handle"
  engineHandleConnection :: "Engine \<Rightarrow> context \<Rightarrow> SessionContext \<Rightarrow> unit outcome"

text \<open>
  \<open>Server.handleConnection\<close>. Once the stream writer exists, the deferred function is
  registered; it runs when the function leaves, by return or by panic, and launches the
  goroutine that closes the stream writer with \<open>s.closeContext\<close>.
\<close>

definition handleConnection ::
  "'a Server_scheme \<Rightarrow> conn_env \<Rightarrow> context \<Rightarrow> event list \<times> unit outcome" where
  "handleConnection s env ctx =
     (case authorize s (newID env) ctx of
        (ev, Fail err) \<Rightarrow> (ev, Fail (Wrap err))
      | (ev, Panic) \<Rightarrow> (ev, Panic)
      | (ev, Return sessionCtx) \<Rightarrow>
         (case newStreamWriter env sessionCtx of
            Inl err \<Rightarrow> (ev @ [NewStreamWriter], Fail (Wrap err))
          | Inr streamWriter \<Rightarrow>
             (let deferred = [GoStreamWriterClose streamWriter (closeContext s)]
              in case dispatch s sessionCtx streamWriter of
                   Fail err \<Rightarrow> (ev @ [NewStreamWriter] @ deferred, Fail (Wrap err))
                 | Panic \<Rightarrow> (ev @ [NewStreamWriter] @ deferred, Panic)
                 | Return engine \<Rightarrow>
                    (let ev' = ev @ [NewStreamWriter, EngineHandleConnection ctx] @ deferred
                     in case engineHandleConnection env engine ctx sessionCtx of
                          Fail err \<Rightarrow> (ev', Fail (Wrap err))
                        | Panic \<Rightarrow> (ev', Panic)
                        | Return u \<Rightarrow> (ev', Return ())))))"

text \<open>
  \<open>Server.HandleConnection\<close>. The handshake is made by \<open>tls.Server(conn, s.TLSConfig)\<close>, so
  its event carries the TLS configuration of the server. The deferred \<open>conn.Close\<close> runs
  last on every path. The function has no result; the outcome tells a return from a panic
  that leaves it.
\<close>

definition HandleConnection :: "'a Server_scheme \<Rightarrow> conn_env \<Rightarrow> event list \<times> unit outcome" where
  "HandleConnection s env =
     (let ev = [LogDebug ''Accepted connection.'', TLSHandshake (TLSConfig s)]
      in case handshake env of
           Some err \<Rightarrow>
             (ev @ [LogError ''Failed to perform TLS handshake.''] @ [ConnClose], Return ())
         | None \<Rightarrow>
            (case wrapContext env of
               Inl err \<Rightarrow>
                 (ev @ [MiddlewareWrapContext,
                        LogError ''Failed to extract identity from connection.''] @ [ConnClose],
                  Return ())
             | Inr ctx \<Rightarrow>
                (case handleConnection s env ctx of
                   (ev', Fail err) \<Rightarrow>
                     (ev @ [MiddlewareWrapContext] @ ev' @
                      [LogError ''Failed to handle connection.''] @ [ConnClose], Return ())
                 | (ev', Panic) \<Rightarrow> (ev @ [MiddlewareWrapContext] @ ev' @ [ConnClose], Panic)
                 | (ev', Return u) \<Rightarrow>
                     (ev @ [MiddlewareWrapContext] @ ev' @ [ConnClose], Return ()))))"

subsection \<open>Heartbeat info-provider\<close>

text \<open>
  \<open>clock.Now\<close>: a fake clock reads its own time, the real clock the wall time \<open>wall\<close> of the
  call.
\<close>

fun Now :: "time \<Rightarrow> clock \<Rightarrow> time" where
  "Now wall RealClock = wall"
| "Now wall (FakeClock t) = t"

text \<open>
  \<open>server.SetTTL(s.Clock, ttl)\<close>: the expiry becomes the clock's reading plus \<open>ttl\<close>. A nil
  clock panics at \<open>Now\<close>.
\<close>

definition SetTTL :: "time \<Rightarrow> clock option \<Rightarrow> time \<Rightarrow> DatabaseServer \<Rightarrow> DatabaseServer outcome" where
  "SetTTL wall clk ttl server =
     (case clk of
        None \<Rightarrow> Panic
      | Some c \<Rightarrow> Return (server\<lparr>Expires := Some (Now wall c + ttl)\<rparr>))"

text \<open>
  The closure that \<open>Server.getServerInfoFunc\<close> returns, run once on the descriptor \<open>server\<close>
  it captured. \<open>ttl\<close> is \<open>defaults.ServerAnnounceTTL\<close>. In the branch that is not the
  warning, \<open>*rotation\<close> dereferences the pointer that the getter returned.
\<close>

definition getServerInfoFunc ::
  "'a Server_scheme \<Rightarrow> time \<Rightarrow> time \<Rightarrow> DatabaseServer \<Rightarrow> event list \<times> DatabaseServer outcome" where
  "getServerInfoFunc s wall ttl server0 =
     (let server =
            (case map_of (dynamicLabels s) (Name server0) of
               Some labels \<Rightarrow> server0\<lparr>DynamicLabels := labelsGet labels\<rparr>
             | None \<Rightarrow> server0)
      in case GetRotation s of
           None \<Rightarrow> ([], Panic)
         | Some getRotation \<Rightarrow>
            (case getRotation RoleDatabase of
               (rotation, err) \<Rightarrow>
                 if (case err of None \<Rightarrow> False | Some e \<Rightarrow> \<not> IsNotFound e)
                 then ([LogWarn ''Failed to get rotation state.''], SetTTL wall (Clock s) ttl server)
                 else
                  (case rotation of
                     None \<Rightarrow> ([], Panic)
                   | Some r \<Rightarrow> ([], SetTTL wall (Clock s) ttl (server\<lparr>RotationState := r\<rparr>)))))"

subsection \<open>Start and Close\<close>

text \<open>\<open>Server.Start\<close>: one goroutine per label worker, then one per heartbeat; the result is nil.\<close>

definition Start :: "'a Server_scheme \<Rightarrow> event list \<times> error option" where
  "Start s =
     (map (\<lambda>(name, dynamicLabel). GoDynamicStart name) (dynamicLabels s) @
      map (\<lambda>(name, heartbeat). GoHeartbeatRun name) (heartbeats s),
      None)"

text \<open>
  The last loop of \<open>Server.Close\<close>: every heartbeat is closed and what its \<open>Close\<close> returns
  is appended to \<open>errors\<close>, nil or not.
\<close>

fun close_heartbeats ::
  "(string \<times> Heartbeat) list \<Rightarrow> error option list \<Rightarrow> event list \<times> error option list" where
  "close_heartbeats [] errors = ([], errors)"
| "close_heartbeats ((name, heartbeat) # rest) errors =
     (case close_heartbeats rest (errors @ [closeErr heartbeat]) of
        (ev, errors') \<Rightarrow> (HeartbeatClose name # ev, errors'))"

definition Close :: "'a Server_scheme \<Rightarrow> event list \<times> error option" where
  "Close s =
     (let ev1 = map (\<lambda>(name, dynamicLabel). DynamicClose name) (dynamicLabels s);
          ev2 = [CloseFunc]
      in case close_heartbeats (heartbeats s) [] of
           (ev3, errors) \<Rightarrow> (ev1 @ ev2 @ ev3, NewAggregate errors))"

subsection \<open>Access check of the engine\<close>

text \<open>
  Modelled from the spec: the access check that the protocol engine makes before it runs a
  query (the engine of package \<open>postgres\<close> and the capability checker of package
  \<open>services\<close>) is not among the source files; only the test table \<open>TestDatabaseAccess\<close> is.
  The spec: access is granted iff dbName is wildcard-or-member of allowDbNames and dbUser is
  wildcard-or-member of allowDbUsers; otherwise the engine denies before any query
  executes. An allow-list entry that is the wildcard admits every requested name, as in the
  spec's first example.
\<close>

definition Wildcard :: string where
  "Wildcard = ''*''"

text \<open>
  Modelled from the spec: "wildcard-or-member" of an allow-list, for the matcher of package
  \<open>services\<close> that is not among the source files.
\<close>

fun wildcard_or_member :: "string list \<Rightarrow> string \<Rightarrow> bool" where
  "wildcard_or_member [] name = False"
| "wildcard_or_member (n # rest) name =
     (if n = name \<or> n = Wildcard then True else wildcard_or_member rest name)"

text \<open>
  Modelled from the spec: the verdict of the access check, nil when access is granted and
  the access-denied error of the test table otherwise.
\<close>

definition checkAccess :: "string list \<Rightarrow> string list \<Rightarrow> string \<Rightarrow> string \<Rightarrow> error option" where
  "checkAccess allowDbNames allowDbUsers dbName dbUser =
     (if wildcard_or_member allowDbNames dbName \<and> wildcard_or_member allowDbUsers dbUser
      then None
      else Some (AccessDenied ''access to database denied''))"

text \<open>
  Modelled from the spec: a run of the engine on the queries of one connection. The result
  lists the queries that were executed.
\<close>

definition engine_run ::
  "string list \<Rightarrow> string list \<Rightarrow> string \<Rightarrow> string \<Rightarrow> string list \<Rightarrow> string list \<times> error option" where
  "engine_run allowDbNames allowDbUsers dbName dbUser queries =
     (case checkAccess allowDbNames allowDbUsers dbName dbUser of
        Some err \<Rightarrow> ([], Some err)
      | None \<Rightarrow> (queries, None))"

text \<open>
  The table of \<open>TestDatabaseAccess\<close>: allowed names, allowed users, requested name, requested
  user, and whether the test expects an error.
\<close>

definition test_table :: "(string list \<times> string list \<times> string \<times> string \<times> bool) list" where
  "test_table =
     [([Wildcard], [Wildcard], ''postgres'', ''postgres'', False),
      ([], [], ''postgres'', ''postgres'', True),
      ([], [Wildcard], ''postgres'', ''postgres'', True),
      ([Wildcard], [], ''postgres'', ''postgres'', True),
      ([''metrics''], [''alice''], ''metrics'', ''alice'', False),
      ([''metrics''], [''alice''], ''postgres'', ''postgres'', True)]"

subsection \<open>Example values\<close>

text \<open>
  A descriptor named as in the test suite, an authorizer that accepts every request for a
  given service name, and a configuration with every field set but the credentials.
\<close>

definition example_db :: DatabaseServer where
  "example_db =
     \<lparr>Name = ''host-1'', DatabaseName = ''test'', Protocol = ''postgres'',
      URI = ''localhost:5432'', DynamicLabels = [], RotationState = Rotation ''standby'',
      Expires = None\<rparr>"

definition example_authorizer :: "string \<Rightarrow> context \<Rightarrow> error + AuthContext" where
  "example_authorizer serviceName ctx =
     Inr \<lparr>authIdentity = \<lparr>Username = ''alice'', ServiceName = serviceName\<rparr>,
          authChecker = Handle ''checker''\<rparr>"

definition example_config :: Config where
  "example_config =
     \<lparr>Clock = Some (FakeClock 1000),
      DataDir = ''/var/lib/teleport'',
      AuthClient = Some (Handle ''auth-client''),
      AccessPoint = Some (Handle ''access-point''),
      StreamEmitter = Some (Handle ''emitter''),
      TLSConfig = Some \<lparr>ClientAuth = NoClientCert, GetConfigForClient = False\<rparr>,
      CipherSuites = [4865],
      Authorizer = Some (example_authorizer ''test''),
      GetRotation = Some (\<lambda>r. (Some (Rotation ''standby''), None)),
      Servers = [example_db],
      Credentials = None,
      OnHeartbeat = Some (Handle ''on-heartbeat'')\<rparr>"

definition example_init_env :: init_env where
  "example_init_env =
     \<lparr>newDynamic = (\<lambda>d. Inr \<lparr>labelsGet = DynamicLabels d\<rparr>),
      newHeartbeat = (\<lambda>d. Inr \<lparr>closeErr = None\<rparr>),
      initRDSRootCert = (\<lambda>certs d. Inr certs)\<rparr>"

text \<open>
  The server that \<open>New\<close> builds from this configuration, when the default session gives the
  credentials \<open>aws\<close>.
\<close>

definition example_server :: Server where
  "example_server =
     Config.extend
       (example_config\<lparr>Credentials := Some (Handle ''aws''),
                       TLSConfig := Some \<lparr>ClientAuth = RequireAndVerifyClientCert,
                                           GetConfigForClient = True\<rparr>\<rparr>)
       (Server.fields (WithCancel Background) []
          [(''host-1'', \<lparr>closeErr = None\<rparr>)] [])"

definition example_conn_env :: conn_env where
  "example_conn_env =
     \<lparr>handshake = None,
      wrapContext = Inr (WithUser LocalUser Background),
      newID = ''7c1e'',
      newStreamWriter = (\<lambda>sessionCtx. Inr (Handle ''stream'')),
      engineHandleConnection = (\<lambda>engine ctx sessionCtx. Return ())\<rparr>"

definition example_session :: SessionContext where
  "example_session =
     \<lparr>ID = ''7c1e'', Server = Some example_db,
      Identity = \<lparr>Username = ''alice'', ServiceName = ''test''\<rparr>,
      Checker = Handle ''checker'',
      Log = [(''id'', ''7c1e''), (''db'', ''test'')]\<rparr>"

text \<open>
  A server with a label worker and three heartbeats, two of which fail to close.
\<close>

definition failing_server :: Server where
  "failing_server =
     example_server\<lparr>dynamicLabels := [(''host-1'', \<lparr>labelsGet = [(''env'', ''prod'')]\<rparr>)],
                    heartbeats := [(''host-1'', \<lparr>closeErr = Some (External ''announce failed'')\<rparr>),
                                   (''host-2'', \<lparr>closeErr = None\<rparr>),
                                   (''host-3'', \<lparr>closeErr = Some (External ''keep-alive failed'')\<rparr>)]\<rparr>"

subsection \<open>Observers of a trace\<close>

text \<open>The events that launch the goroutine closing a stream writer.\<close>

fun isStreamWriterClose :: "event \<Rightarrow> bool" where
  "isStreamWriterClose (GoStreamWriterClose w c) = True"
| "isStreamWriterClose e = False"

section \<open>Properties\<close>

subsection \<open>Authorization\<close>

lemma fetch_server_no_match:
  "\<forall>d \<in> set ds. DatabaseName d \<noteq> n \<Longrightarrow> fetch_server ds n acc = acc"
  by (induction ds arbitrary: acc) simp_all

text \<open>
  C1: when the service name of the client identity matches no configured descriptor,
  authorize should fail with an error and build no session. The code does not: for a local
  or remote principal that the authorizer accepts, if no configured descriptor has the
  requested service name, \<open>server\<close> is still the nil interface when the second debug message
  calls its methods, and \<open>authorize\<close> panics after the authorizer call and the first debug
  message. It returns neither an error nor a session.
\<close>

theorem authorize_unknown_service_panics:
  assumes "ctx_Value ctx = LocalUser \<or> ctx_Value ctx = RemoteUser"
    and "Authorizer s = Some authorizer"
    and "authorizer ctx = Inr authContext"
    and "\<forall>d \<in> set (Servers s). DatabaseName d \<noteq> ServiceName (authIdentity authContext)"
  shows "authorize s uid ctx =
           ([AuthorizerAuthorize, LogDebug ''Client identity: %#v.''], Panic)"
  using assms fetch_server_no_match [OF assms(4), of None]
  by (auto simp add: authorize_def Let_def)

theorem authorize_unknown_service_panics_witness:
  "authorize (example_server\<lparr>Authorizer := Some (example_authorizer ''other'')\<rparr>) ''7c1e''
     (WithUser LocalUser Background) =
   ([AuthorizerAuthorize, LogDebug ''Client identity: %#v.''], Panic)"
  using authorize_unknown_service_panics
     [of "WithUser LocalUser Background"
         "example_server\<lparr>Authorizer := Some (example_authorizer ''other'')\<rparr>"
         "example_authorizer ''other''"
         "\<lparr>authIdentity = \<lparr>Username = ''alice'', ServiceName = ''other''\<rparr>,
           authChecker = Handle ''checker''\<rparr>" "''7c1e''"]
  by (simp add: example_server_def example_config_def example_db_def example_authorizer_def
        Config.defs Server.defs)

text \<open>
  C4: for every identity whose principal type is neither the local nor the remote
  principal, \<open>authorize\<close> fails with a \<open>BadParameter\<close> error that names the type. The trace is
  empty, so the authorizer has not been called, and the result is an error, so no session
  has been built.
\<close>

theorem authorize_rejects_other_principals:
  assumes "ctx_Value ctx \<noteq> LocalUser" and "ctx_Value ctx \<noteq> RemoteUser"
  shows "authorize s uid ctx =
           ([], Fail (BadParameter ''invalid identity: %T'' [type_name (ctx_Value ctx)]))
         \<and> IsBadParameter (BadParameter ''invalid identity: %T'' [type_name (ctx_Value ctx)])"
  using assms by (simp add: authorize_def Let_def)

theorem authorize_rejects_other_principals_witness:
  "ctx_Value (WithUser BuiltinRole Background) \<noteq> LocalUser
   \<and> ctx_Value (WithUser BuiltinRole Background) \<noteq> RemoteUser
   \<and> authorize example_server ''7c1e'' (WithUser BuiltinRole Background) =
       ([], Fail (BadParameter ''invalid identity: %T'' [''auth.BuiltinRole'']))"
  using authorize_rejects_other_principals
          [of "WithUser BuiltinRole Background" example_server "''7c1e''"]
  by simp

subsection \<open>Heartbeat info-provider\<close>

text \<open>
  C2: when the rotation getter returns a not-found error, the info-provider should go on,
  reset the expiry and return the descriptor. The code does not when the getter returns the
  nil pointer with that error: the condition of the warning is false for a not-found error,
  so the other branch runs and dereferences the pointer. The closure panics before
  \<open>SetTTL\<close>, with no warning logged.
\<close>

theorem getServerInfoFunc_not_found_panics:
  assumes "GetRotation s = Some getRotation"
    and "getRotation RoleDatabase = (None, Some err)"
    and "IsNotFound err"
  shows "getServerInfoFunc s wall ttl server = ([], Panic)"
  using assms by (simp add: getServerInfoFunc_def Let_def)

theorem getServerInfoFunc_not_found_panics_witness:
  "IsNotFound (NotFound ''rotation state not found'')
   \<and> getServerInfoFunc
       (example_server\<lparr>GetRotation :=
          Some (\<lambda>r. (None, Some (NotFound ''rotation state not found'')))\<rparr>)
       2000 600 example_db = ([], Panic)"
  using getServerInfoFunc_not_found_panics
     [of "example_server\<lparr>GetRotation :=
            Some (\<lambda>r. (None, Some (NotFound ''rotation state not found'')))\<rparr>"
         "\<lambda>r. (None, Some (NotFound ''rotation state not found''))"
         "NotFound ''rotation state not found''" 2000 600 example_db]
  by simp

subsection \<open>Start\<close>

text \<open>
  C10: \<open>Start\<close> returns nil for every server, so for every server that \<open>New\<close> has built: the
  launch of the label and heartbeat workers produces no error at the call.
\<close>

theorem Start_returns_nil: "snd (Start s) = None"
  by (simp add: Start_def)

subsection \<open>Configuration validation\<close>

lemma check_result:
  fixes c :: "'a Config_scheme"
  shows "snd (CheckAndSetDefaults aws c) =
     (if DataDir c = [] then Some (BadParameter ''data dir missing'' [])
      else if AuthClient c = None then Some (BadParameter ''auth client log missing'' [])
      else if AccessPoint c = None then Some (BadParameter ''access point missing'' [])
      else if StreamEmitter c = None then Some (BadParameter ''stream emitter missing'' [])
      else if TLSConfig c = None then Some (BadParameter ''tls config missing'' [])
      else if CipherSuites c = [] then Some (BadParameter ''cipersuites missing'' [])
      else if Authorizer c = None then Some (BadParameter ''authorizer missing'' [])
      else if GetRotation c = None then Some (BadParameter ''rotation getter missing'' [])
      else if Servers c = [] then Some (BadParameter ''database servers missing'' [])
      else if OnHeartbeat c = None then Some (BadParameter ''heartbeat missing'' [])
      else if Credentials c = None
           then (case aws of Inl err \<Rightarrow> Some (Wrap err) | Inr creds \<Rightarrow> None)
      else None)"
  by (cases "Clock c = None")
     (simp_all add: CheckAndSetDefaults_def Let_def del: not_None_eq split: sum.splits)

lemma check_clock:
  fixes c :: "'a Config_scheme"
  shows "Clock (fst (CheckAndSetDefaults aws c)) =
           (if Clock c = None then Some RealClock else Clock c)"
  by (cases "Clock c = None")
     (simp_all add: CheckAndSetDefaults_def Let_def del: not_None_eq split: sum.splits)

lemma check_credentials:
  fixes c :: "'a Config_scheme"
  assumes "snd (CheckAndSetDefaults aws c) = None"
  shows "Credentials (fst (CheckAndSetDefaults aws c)) =
           (if Credentials c = None
            then (case aws of Inr creds \<Rightarrow> Some creds | Inl e \<Rightarrow> None)
            else Credentials c)"
  using assms
  by (cases "Clock c = None")
     (simp_all add: CheckAndSetDefaults_def Let_def del: not_None_eq
        split: sum.splits if_splits)

lemma New_rejects:
  "snd (CheckAndSetDefaults aws c) = Some err \<Longrightarrow> New ctx aws env c = Fail (Wrap err)"
  by (cases "CheckAndSetDefaults aws c") (simp add: New_def)

text \<open>
  C3, as amended: the error of the validation is decided field by field, in the order data
  directory, auth client, access point, stream emitter, TLS configuration, cipher suites,
  authorizer, rotation getter, descriptor list, heartbeat callback: the first of these ten
  fields that is unset gives a \<open>BadParameter\<close> error whose message names that field, so a
  configuration with any of them unset is rejected, and \<open>New\<close> fails with the error of the
  validation, wrapped. Neither the clock nor the credential provider is ever reported
  missing: an unset clock is replaced by the real clock, an unset credential provider by
  the credentials of the default session, and the only error left when the ten fields are
  set is the failure to open that session.
\<close>

theorem CheckAndSetDefaults_mandatory_fields:
  fixes c :: Config
  shows
  "snd (CheckAndSetDefaults aws c) =
     (if DataDir c = [] then Some (BadParameter ''data dir missing'' [])
      else if AuthClient c = None then Some (BadParameter ''auth client log missing'' [])
      else if AccessPoint c = None then Some (BadParameter ''access point missing'' [])
      else if StreamEmitter c = None then Some (BadParameter ''stream emitter missing'' [])
      else if TLSConfig c = None then Some (BadParameter ''tls config missing'' [])
      else if CipherSuites c = [] then Some (BadParameter ''cipersuites missing'' [])
      else if Authorizer c = None then Some (BadParameter ''authorizer missing'' [])
      else if GetRotation c = None then Some (BadParameter ''rotation getter missing'' [])
      else if Servers c = [] then Some (BadParameter ''database servers missing'' [])
      else if OnHeartbeat c = None then Some (BadParameter ''heartbeat missing'' [])
      else if Credentials c = None
           then (case aws of Inl err \<Rightarrow> Some (Wrap err) | Inr creds \<Rightarrow> None)
      else None)
   \<and> (\<forall>err. snd (CheckAndSetDefaults aws c) = Some err \<longrightarrow>
          New ctx aws env c = Fail (Wrap err))
   \<and> Clock (fst (CheckAndSetDefaults aws c)) =
        (if Clock c = None then Some RealClock else Clock c)
   \<and> (snd (CheckAndSetDefaults aws c) = None \<longrightarrow>
        Credentials (fst (CheckAndSetDefaults aws c)) =
          (if Credentials c = None
           then (case aws of Inr creds \<Rightarrow> Some creds | Inl e \<Rightarrow> None)
           else Credentials c))"
proof (intro conjI allI impI)
  show "snd (CheckAndSetDefaults aws c) =
     (if DataDir c = [] then Some (BadParameter ''data dir missing'' [])
      else if AuthClient c = None then Some (BadParameter ''auth client log missing'' [])
      else if AccessPoint c = None then Some (BadParameter ''access point missing'' [])
      else if StreamEmitter c = None then Some (BadParameter ''stream emitter missing'' [])
      else if TLSConfig c = None then Some (BadParameter ''tls config missing'' [])
      else if CipherSuites c = [] then Some (BadParameter ''cipersuites missing'' [])
      else if Authorizer c = None then Some (BadParameter ''authorizer missing'' [])
      else if GetRotation c = None then Some (BadParameter ''rotation getter missing'' [])
      else if Servers c = [] then Some (BadParameter ''database servers missing'' [])
      else if OnHeartbeat c = None then Some (BadParameter ''heartbeat missing'' [])
      else if Credentials c = None
           then (case aws of Inl err \<Rightarrow> Some (Wrap err) | Inr creds \<Rightarrow> None)
      else None)"
    by (rule check_result)
next
  fix err
  assume "snd (CheckAndSetDefaults aws c) = Some err"
  then show "New ctx aws env c = Fail (Wrap err)"
    by (rule New_rejects)
next
  show "Clock (fst (CheckAndSetDefaults aws c)) =
          (if Clock c = None then Some RealClock else Clock c)"
    by (rule check_clock)
next
  assume "snd (CheckAndSetDefaults aws c) = None"
  then show "Credentials (fst (CheckAndSetDefaults aws c)) =
          (if Credentials c = None
           then (case aws of Inr creds \<Rightarrow> Some creds | Inl e \<Rightarrow> None)
           else Credentials c)"
    by (rule check_credentials)
qed

theorem CheckAndSetDefaults_mandatory_fields_witness:
  "New Background (Inr (Handle ''aws'')) example_init_env (example_config\<lparr>Servers := []\<rparr>) =
     Fail (Wrap (BadParameter ''database servers missing'' []))
   \<and> New Background (Inr (Handle ''aws'')) example_init_env
       (example_config\<lparr>AuthClient := None, OnHeartbeat := None\<rparr>) =
     Fail (Wrap (BadParameter ''auth client log missing'' []))
   \<and> snd (CheckAndSetDefaults (Inr (Handle ''aws'')) (example_config\<lparr>Clock := None\<rparr>)) = None
   \<and> Clock (fst (CheckAndSetDefaults (Inr (Handle ''aws'')) (example_config\<lparr>Clock := None\<rparr>))) =
       Some RealClock
   \<and> Credentials (fst (CheckAndSetDefaults (Inr (Handle ''aws''))
                        (example_config\<lparr>Clock := None\<rparr>))) =
       Some (Handle ''aws'')"
  using CheckAndSetDefaults_mandatory_fields
          [of "Inr (Handle ''aws'')" "example_config\<lparr>Servers := []\<rparr>" Background
              example_init_env]
        CheckAndSetDefaults_mandatory_fields
          [of "Inr (Handle ''aws'')" "example_config\<lparr>AuthClient := None, OnHeartbeat := None\<rparr>"
              Background example_init_env]
        CheckAndSetDefaults_mandatory_fields
          [of "Inr (Handle ''aws'')" "example_config\<lparr>Clock := None\<rparr>" Background
              example_init_env]
  by (simp add: example_config_def example_db_def)

text \<open>
  The clock is not a mandatory field: a configuration that differs from a complete one
  only in its unset clock is accepted, with the real clock put in its place, and \<open>New\<close>
  returns a server.
\<close>

theorem clock_unset_is_defaulted:
  "Clock (example_config\<lparr>Clock := None\<rparr>) = None
   \<and> CheckAndSetDefaults (Inr (Handle ''aws'')) (example_config\<lparr>Clock := None\<rparr>) =
       (example_config\<lparr>Clock := Some RealClock, Credentials := Some (Handle ''aws'')\<rparr>, None)
   \<and> (\<exists>s. New Background (Inr (Handle ''aws'')) example_init_env
               (example_config\<lparr>Clock := None\<rparr>) = Return s \<and> Clock s = Some RealClock)"
  by (simp add: CheckAndSetDefaults_def New_def example_config_def example_db_def
        example_init_env_def initDatabaseServer_def initDynamicLabels_def initHeartbeat_def
        Config.defs Server.defs Let_def)

subsection \<open>Dispatch\<close>

text \<open>
  C5: for a session whose descriptor names a protocol other than postgres, \<open>dispatch\<close>
  returns an error that says the protocol is unsupported and carries its name, and no
  engine. For postgres it returns an engine holding the auth client, the credential
  provider, the root-certificate cache, the three audit closures bound to the stream
  writer, the clock and the session logger.
\<close>

theorem dispatch_by_protocol:
  assumes "Server sessionCtx = Some d"
  shows "(Protocol d \<noteq> ProtocolPostgres \<longrightarrow>
            dispatch s sessionCtx streamWriter =
              Fail (BadParameter ''unsupported database procotol %q'' [Protocol d]))
       \<and> (Protocol d = ProtocolPostgres \<longrightarrow>
            dispatch s sessionCtx streamWriter =
              Return \<lparr>EngineAuthClient = AuthClient s,
                      EngineCredentials = Credentials s,
                      EngineRDSCACerts = rdsCACerts s,
                      EngineOnSessionStart = emitSessionStartEventFn streamWriter,
                      EngineOnSessionEnd = emitSessionEndEventFn streamWriter,
                      EngineOnQuery = emitQueryEventFn streamWriter,
                      EngineClock = Clock s,
                      EngineLog = Log sessionCtx\<rparr>)"
  using assms by (simp add: dispatch_def)

theorem dispatch_by_protocol_witness:
  "dispatch example_server
     (example_session\<lparr>Server := Some (example_db\<lparr>Protocol := ''mysql''\<rparr>)\<rparr>)
     (Handle ''stream'') =
     Fail (BadParameter ''unsupported database procotol %q'' [''mysql''])
   \<and> dispatch example_server example_session (Handle ''stream'') =
       Return \<lparr>EngineAuthClient = Some (Handle ''auth-client''),
               EngineCredentials = Some (Handle ''aws''),
               EngineRDSCACerts = [],
               EngineOnSessionStart = emitSessionStartEventFn (Handle ''stream''),
               EngineOnSessionEnd = emitSessionEndEventFn (Handle ''stream''),
               EngineOnQuery = emitQueryEventFn (Handle ''stream''),
               EngineClock = Some (FakeClock 1000),
               EngineLog = [(''id'', ''7c1e''), (''db'', ''test'')]\<rparr>"
  using dispatch_by_protocol
     [of "example_session\<lparr>Server := Some (example_db\<lparr>Protocol := ''mysql''\<rparr>)\<rparr>"
         "example_db\<lparr>Protocol := ''mysql''\<rparr>" example_server "Handle ''stream''"]
    dispatch_by_protocol [of example_session example_db example_server "Handle ''stream''"]
  by (simp add: example_session_def example_db_def ProtocolPostgres_def example_server_def
        example_config_def Config.defs Server.defs)

subsection \<open>Close\<close>

lemma close_heartbeats_eq:
  "close_heartbeats hs errors =
     (map (\<lambda>(name, heartbeat). HeartbeatClose name) hs,
      errors @ map (\<lambda>(name, heartbeat). closeErr heartbeat) hs)"
  by (induction hs errors rule: close_heartbeats.induct) simp_all

lemma map_filter_id_map:
  "List.map_filter id (map f xs) = List.map_filter f xs"
  by (induction xs) (simp_all split: option.splits)

text \<open>
  C6: \<open>Close\<close> first closes every label worker, then cancels the lifecycle context, then
  closes every heartbeat, in the order of the two tables; what it returns is the aggregate
  of every error that a heartbeat close returned, in that order, and nil when there is none.
\<close>

theorem Close_order_and_aggregate:
  "fst (Close s) =
     map (\<lambda>(name, dynamicLabel). DynamicClose name) (dynamicLabels s) @ [CloseFunc] @
     map (\<lambda>(name, heartbeat). HeartbeatClose name) (heartbeats s)
   \<and> snd (Close s) =
       (let failures = List.map_filter (\<lambda>(name, heartbeat). closeErr heartbeat) (heartbeats s)
        in if failures = [] then None else Some (Aggregate failures))"
  by (simp add: Close_def close_heartbeats_eq NewAggregate_def map_filter_id_map)

theorem Close_order_and_aggregate_witness:
  "Close failing_server =
     ([DynamicClose ''host-1'', CloseFunc, HeartbeatClose ''host-1'', HeartbeatClose ''host-2'',
       HeartbeatClose ''host-3''],
      Some (Aggregate [External ''announce failed'', External ''keep-alive failed'']))"
  using Close_order_and_aggregate [of failing_server]
  by (simp add: failing_server_def prod_eq_iff)

subsection \<open>Connection handling\<close>

lemma initDatabaseServer_TLSConfig:
  "initDatabaseServer env s d = Inr s' \<Longrightarrow> TLSConfig s' = TLSConfig s"
  by (auto simp add: initDatabaseServer_def initDynamicLabels_def initHeartbeat_def
        split: sum.splits if_splits)

lemma init_all_TLSConfig:
  "init_all env s ds = Inr s' \<Longrightarrow> TLSConfig s' = TLSConfig s"
proof (induction ds arbitrary: s)
  case Nil
  then show ?case by simp
next
  case (Cons d ds)
  then obtain s1 where 1: "initDatabaseServer env s d = Inr s1"
    and 2: "init_all env s1 ds = Inr s'"
    by (auto split: sum.splits)
  from Cons.IH [OF 2] initDatabaseServer_TLSConfig [OF 1] show ?case by simp
qed

lemma New_TLSConfig:
  assumes "New ctx aws env c = Return s"
  shows "\<exists>cfg. TLSConfig s = Some cfg \<and> ClientAuth cfg = RequireAndVerifyClientCert"
proof -
  obtain c1 where 1: "CheckAndSetDefaults aws c = (c1, None)"
    using assms by (cases "CheckAndSetDefaults aws c") (auto simp add: New_def split: option.splits)
  obtain cfg where 2: "TLSConfig c1 = Some cfg"
    using assms 1 by (cases "TLSConfig c1") (auto simp add: New_def)
  let ?s0 = "(Config.extend c1 (Server.fields (WithCancel ctx) [] [] []))
               \<lparr>TLSConfig := Some (cfg\<lparr>ClientAuth := RequireAndVerifyClientCert,
                                        GetConfigForClient := True\<rparr>)\<rparr>"
  have 3: "init_all env ?s0 (Servers ?s0) = Inr s"
    using assms 1 2 by (auto simp add: New_def Let_def split: sum.splits)
  from init_all_TLSConfig [OF 3] show ?thesis by simp
qed

lemma New_example:
  "New Background (Inr (Handle ''aws'')) example_init_env example_config = Return example_server"
  by (simp add: CheckAndSetDefaults_def New_def example_config_def example_db_def
        example_init_env_def example_server_def initDatabaseServer_def initDynamicLabels_def
        initHeartbeat_def Config.defs Server.defs Let_def)

text \<open>
  C7: the trace of \<open>HandleConnection\<close> starts with the TLS handshake, made with the TLS
  configuration of the server, and ends with the close of the connection; on a server that
  \<open>New\<close> has built, that configuration requires and verifies a client certificate. An
  authorizer call or a session in the trace means that the handshake and the extraction of
  the identity both succeeded. When the handshake fails, or the extraction of the identity
  fails, the function logs the failure, closes the connection and returns, with no
  authorization step and no session.
\<close>

theorem HandleConnection_handshake_first:
  fixes s :: Server
  shows
  "take 2 (fst (HandleConnection s env)) =
     [LogDebug ''Accepted connection.'', TLSHandshake (TLSConfig s)]
   \<and> (\<forall>ctx aws ienv c. New ctx aws ienv c = Return s \<longrightarrow>
         (\<exists>cfg. TLSConfig s = Some cfg \<and> ClientAuth cfg = RequireAndVerifyClientCert))
   \<and> last (fst (HandleConnection s env)) = ConnClose
   \<and> (AuthorizerAuthorize \<in> set (fst (HandleConnection s env))
        \<or> (\<exists>uid. SessionBuilt uid \<in> set (fst (HandleConnection s env)))
       \<longrightarrow> handshake env = None \<and> (\<exists>ctx. wrapContext env = Inr ctx))
   \<and> (\<forall>err. handshake env = Some err \<longrightarrow>
         HandleConnection s env =
           ([LogDebug ''Accepted connection.'', TLSHandshake (TLSConfig s),
             LogError ''Failed to perform TLS handshake.'', ConnClose], Return ()))
   \<and> (\<forall>err. handshake env = None \<and> wrapContext env = Inl err \<longrightarrow>
         HandleConnection s env =
           ([LogDebug ''Accepted connection.'', TLSHandshake (TLSConfig s),
             MiddlewareWrapContext,
             LogError ''Failed to extract identity from connection.'', ConnClose], Return ()))"
proof -
  have n: "\<forall>ctx aws ienv c. New ctx aws ienv c = Return s \<longrightarrow>
         (\<exists>cfg. TLSConfig s = Some cfg \<and> ClientAuth cfg = RequireAndVerifyClientCert)"
    using New_TLSConfig by blast
  have t: "take 2 (fst (HandleConnection s env)) =
     [LogDebug ''Accepted connection.'', TLSHandshake (TLSConfig s)]
   \<and> last (fst (HandleConnection s env)) = ConnClose
   \<and> (AuthorizerAuthorize \<in> set (fst (HandleConnection s env))
        \<or> (\<exists>uid. SessionBuilt uid \<in> set (fst (HandleConnection s env)))
       \<longrightarrow> handshake env = None \<and> (\<exists>ctx. wrapContext env = Inr ctx))
   \<and> (\<forall>err. handshake env = Some err \<longrightarrow>
         HandleConnection s env =
           ([LogDebug ''Accepted connection.'', TLSHandshake (TLSConfig s),
             LogError ''Failed to perform TLS handshake.'', ConnClose], Return ()))
   \<and> (\<forall>err. handshake env = None \<and> wrapContext env = Inl err \<longrightarrow>
         HandleConnection s env =
           ([LogDebug ''Accepted connection.'', TLSHandshake (TLSConfig s),
             MiddlewareWrapContext,
             LogError ''Failed to extract identity from connection.'', ConnClose], Return ()))"
    by (simp add: HandleConnection_def Let_def
          split: option.splits sum.splits prod.splits outcome.splits)
  from n t show ?thesis by blast
qed

theorem HandleConnection_handshake_first_witness:
  "New Background (Inr (Handle ''aws'')) example_init_env example_config = Return example_server
   \<and> HandleConnection example_server example_conn_env =
     ([LogDebug ''Accepted connection.'',
       TLSHandshake (Some \<lparr>ClientAuth = RequireAndVerifyClientCert, GetConfigForClient = True\<rparr>),
       MiddlewareWrapContext, AuthorizerAuthorize, LogDebug ''Client identity: %#v.'',
       LogDebug ''Will connect to database %q at %v.'', SessionBuilt ''7c1e'', NewStreamWriter,
       EngineHandleConnection (WithUser LocalUser Background),
       GoStreamWriterClose (Handle ''stream'') (WithCancel Background), ConnClose], Return ())
   \<and> HandleConnection example_server
       (example_conn_env\<lparr>handshake := Some (External ''tls: bad certificate'')\<rparr>) =
     ([LogDebug ''Accepted connection.'',
       TLSHandshake (Some \<lparr>ClientAuth = RequireAndVerifyClientCert, GetConfigForClient = True\<rparr>),
       LogError ''Failed to perform TLS handshake.'', ConnClose], Return ())
   \<and> HandleConnection example_server
       (example_conn_env\<lparr>wrapContext := Inl (AccessDenied ''missing identity'')\<rparr>) =
     ([LogDebug ''Accepted connection.'',
       TLSHandshake (Some \<lparr>ClientAuth = RequireAndVerifyClientCert, GetConfigForClient = True\<rparr>),
       MiddlewareWrapContext,
       LogError ''Failed to extract identity from connection.'', ConnClose], Return ())"
proof -
  have n: "New Background (Inr (Handle ''aws'')) example_init_env example_config =
             Return example_server"
    by (rule New_example)
  have c: "TLSConfig example_server =
             Some \<lparr>ClientAuth = RequireAndVerifyClientCert, GetConfigForClient = True\<rparr>"
    by (simp add: example_server_def example_config_def Config.defs Server.defs)
  have a: "authorize example_server ''7c1e'' (WithUser LocalUser Background) =
             ([AuthorizerAuthorize, LogDebug ''Client identity: %#v.'',
               LogDebug ''Will connect to database %q at %v.'', SessionBuilt ''7c1e''],
              Return example_session)"
    by (simp add: authorize_def Let_def example_server_def example_config_def example_db_def
          example_authorizer_def example_session_def Config.defs Server.defs)
  have d: "dispatch example_server example_session (Handle ''stream'') \<noteq> Panic"
    "\<forall>e. dispatch example_server example_session (Handle ''stream'') \<noteq> Fail e"
    by (simp_all add: dispatch_def example_session_def example_db_def ProtocolPostgres_def)
  have k: "closeContext example_server = WithCancel Background"
    by (simp add: example_server_def Config.defs Server.defs)
  have h: "handleConnection example_server example_conn_env (WithUser LocalUser Background) =
     ([AuthorizerAuthorize, LogDebug ''Client identity: %#v.'',
       LogDebug ''Will connect to database %q at %v.'', SessionBuilt ''7c1e'', NewStreamWriter,
       EngineHandleConnection (WithUser LocalUser Background),
       GoStreamWriterClose (Handle ''stream'') (WithCancel Background)], Return ())"
    using a d k
    by (simp add: handleConnection_def Let_def example_conn_env_def split: outcome.splits)
  have ok: "HandleConnection example_server example_conn_env =
     ([LogDebug ''Accepted connection.'',
       TLSHandshake (Some \<lparr>ClientAuth = RequireAndVerifyClientCert, GetConfigForClient = True\<rparr>),
       MiddlewareWrapContext, AuthorizerAuthorize, LogDebug ''Client identity: %#v.'',
       LogDebug ''Will connect to database %q at %v.'', SessionBuilt ''7c1e'', NewStreamWriter,
       EngineHandleConnection (WithUser LocalUser Background),
       GoStreamWriterClose (Handle ''stream'') (WithCancel Background), ConnClose], Return ())"
    using h c by (simp add: HandleConnection_def Let_def example_conn_env_def)
  from HandleConnection_handshake_first [of example_server example_conn_env]
       HandleConnection_handshake_first
          [of example_server
              "example_conn_env\<lparr>handshake := Some (External ''tls: bad certificate'')\<rparr>"]
       HandleConnection_handshake_first
          [of example_server
              "example_conn_env\<lparr>wrapContext := Inl (AccessDenied ''missing identity'')\<rparr>"]
       n c ok
  show ?thesis by (simp add: example_conn_env_def)
qed

lemma authorize_no_close:
  "filter isStreamWriterClose (fst (authorize s uid ctx)) = []"
  by (simp add: authorize_def Let_def split: option.splits sum.splits)

text \<open>
  C9: on a connection where \<open>authorize\<close> returns a session and the stream writer is
  created, the trace of \<open>handleConnection\<close> holds exactly one close of a stream writer: the
  close of that stream writer with the server's \<open>closeContext\<close>, whatever \<open>dispatch\<close> and the
  engine return.
\<close>

theorem handleConnection_closes_stream_writer_once:
  assumes "snd (authorize s (newID env) ctx) = Return sessionCtx"
    and "newStreamWriter env sessionCtx = Inr streamWriter"
  shows "filter isStreamWriterClose (fst (handleConnection s env ctx)) =
           [GoStreamWriterClose streamWriter (closeContext s)]"
proof -
  obtain ev where a: "authorize s (newID env) ctx = (ev, Return sessionCtx)"
    using assms(1) by (cases "authorize s (newID env) ctx") simp
  have ev: "filter isStreamWriterClose ev = []"
    using authorize_no_close [of s "newID env" ctx] a by simp
  show ?thesis
    using a ev assms(2)
    by (simp add: handleConnection_def Let_def split: outcome.splits)
qed

theorem handleConnection_closes_stream_writer_once_witness:
  "handleConnection example_server example_conn_env (WithUser LocalUser Background) =
     ([AuthorizerAuthorize, LogDebug ''Client identity: %#v.'',
       LogDebug ''Will connect to database %q at %v.'', SessionBuilt ''7c1e'', NewStreamWriter,
       EngineHandleConnection (WithUser LocalUser Background),
       GoStreamWriterClose (Handle ''stream'') (WithCancel Background)], Return ())
   \<and> filter isStreamWriterClose
        (fst (handleConnection example_server example_conn_env (WithUser LocalUser Background))) =
       [GoStreamWriterClose (Handle ''stream'') (closeContext example_server)]"
proof -
  have a: "authorize example_server (newID example_conn_env) (WithUser LocalUser Background) =
             ([AuthorizerAuthorize, LogDebug ''Client identity: %#v.'',
               LogDebug ''Will connect to database %q at %v.'', SessionBuilt ''7c1e''],
              Return example_session)"
    by (simp add: authorize_def Let_def example_server_def example_config_def example_db_def
          example_authorizer_def example_conn_env_def example_session_def Config.defs Server.defs)
  have w: "newStreamWriter example_conn_env example_session = Inr (Handle ''stream'')"
    by (simp add: example_conn_env_def)
  have d: "dispatch example_server example_session (Handle ''stream'') \<noteq> Panic"
    "\<forall>e. dispatch example_server example_session (Handle ''stream'') \<noteq> Fail e"
    by (simp_all add: dispatch_def example_session_def example_db_def ProtocolPostgres_def)
  have c: "closeContext example_server = WithCancel Background"
    by (simp add: example_server_def Config.defs Server.defs)
  have t: "handleConnection example_server example_conn_env (WithUser LocalUser Background) =
     ([AuthorizerAuthorize, LogDebug ''Client identity: %#v.'',
       LogDebug ''Will connect to database %q at %v.'', SessionBuilt ''7c1e'', NewStreamWriter,
       EngineHandleConnection (WithUser LocalUser Background),
       GoStreamWriterClose (Handle ''stream'') (WithCancel Background)], Return ())"
    using a w d c
    by (simp add: handleConnection_def Let_def example_conn_env_def split: outcome.splits)
  from handleConnection_closes_stream_writer_once
         [of example_server example_conn_env "WithUser LocalUser Background" example_session
             "Handle ''stream''"] a w t
  show ?thesis by simp
qed

subsection \<open>Access check of the engine\<close>

lemma wildcard_or_member_iff:
  "wildcard_or_member xs n \<longleftrightarrow> n \<in> set xs \<or> Wildcard \<in> set xs"
  by (induction xs) auto

text \<open>
  C8: the access check grants exactly when the requested database name is in the list of
  allowed names or that list holds the wildcard, and the requested user is in the list of
  allowed users or that list holds the wildcard. When it denies, the engine returns the
  access-denied error and has executed no query. The check gives every row of the table of
  \<open>TestDatabaseAccess\<close> the verdict that the test expects.
\<close>

theorem checkAccess_wildcard_or_member:
  "(checkAccess allowDbNames allowDbUsers dbName dbUser = None \<longleftrightarrow>
      (dbName \<in> set allowDbNames \<or> Wildcard \<in> set allowDbNames)
      \<and> (dbUser \<in> set allowDbUsers \<or> Wildcard \<in> set allowDbUsers))
   \<and> engine_run allowDbNames allowDbUsers dbName dbUser queries =
       (if (dbName \<in> set allowDbNames \<or> Wildcard \<in> set allowDbNames)
           \<and> (dbUser \<in> set allowDbUsers \<or> Wildcard \<in> set allowDbUsers)
        then (queries, None)
        else ([], Some (AccessDenied ''access to database denied'')))
   \<and> list_all (\<lambda>(allowNames, allowUsers, name, user, expectErr).
                  (checkAccess allowNames allowUsers name user \<noteq> None) = expectErr) test_table"
  by (simp add: checkAccess_def engine_run_def wildcard_or_member_iff test_table_def Wildcard_def)

theorem checkAccess_wildcard_or_member_witness:
  "checkAccess [''metrics''] [''alice''] ''metrics'' ''alice'' = None
   \<and> checkAccess [''metrics''] [''alice''] ''postgres'' ''postgres'' =
       Some (AccessDenied ''access to database denied'')
   \<and> engine_run [''metrics''] [''alice''] ''postgres'' ''postgres'' [''select 1''] =
       ([], Some (AccessDenied ''access to database denied''))
   \<and> engine_run [Wildcard] [Wildcard] ''postgres'' ''postgres'' [''select 1''] =
       ([''select 1''], None)"
  using checkAccess_wildcard_or_member
          [of "[''metrics'']" "[''alice'']" "''metrics''" "''alice''" "[''select 1'']"]
        checkAccess_wildcard_or_member
          [of "[''metrics'']" "[''alice'']" "''postgres''" "''postgres''" "[''select 1'']"]
        checkAccess_wildcard_or_member
          [of "[Wildcard]" "[Wildcard]" "''postgres''" "''postgres''" "[''select 1'']"]
  by (simp add: checkAccess_def Wildcard_def)

end
